theory Spec2Isabelle
  imports Complex_Main "HOL-Library.Word" "HOL-Library.Log_Nat" "HOL-Library.Sublist"
begin

section \<open>Parsley: a command line option parser\<close>

text \<open>
  A shallow embedding of \<^verbatim>\<open>src/parsley.h\<close> and \<^verbatim>\<open>src/parsley.cpp\<close>.
  Strings are \<^typ>\<open>string\<close> (lists of 8-bit characters, as \<^verbatim>\<open>std::string\<close>),
  \<^verbatim>\<open>intp_t\<close> is \<^verbatim>\<open>int\<close>, a 32-bit signed word, output written to
  \<^verbatim>\<open>std::cerr\<close> by \<^verbatim>\<open>warning\<close> is returned as a list of messages, and
  the mutable members of a \<^verbatim>\<open>Parsley\<close> object are passed and returned explicitly.
\<close>

subsection \<open>Numbers\<close>

type_synonym intp_t = "32 word"

text \<open>
  A \<^verbatim>\<open>double\<close>: a finite value (a rational; \<open>Fin 0\<close> is \<open>+0.0\<close>), the negative
  zero, the two infinities, and a NaN with its sign bit.
\<close>

datatype double = Fin rat | NegZero | PosInf | NegInf | NaN bool

definition isnan :: "double \<Rightarrow> bool" where
  "isnan x = (case x of NaN _ \<Rightarrow> True | _ \<Rightarrow> False)"

text \<open>The position of a non-NaN double on the extended number line.\<close>

definition dkey :: "double \<Rightarrow> int \<times> rat" where
  "dkey x = (case x of Fin q \<Rightarrow> (0, q) | NegZero \<Rightarrow> (0, 0) | PosInf \<Rightarrow> (1, 0)
             | NegInf \<Rightarrow> (-1, 0) | NaN _ \<Rightarrow> (0, 0))"

text \<open>The operators \<^verbatim>\<open><\<close>, \<^verbatim>\<open>>\<close> and \<^verbatim>\<open>==\<close> on doubles: false when an operand is a NaN.\<close>

definition dless :: "double \<Rightarrow> double \<Rightarrow> bool" where
  "dless a b = (\<not> isnan a \<and> \<not> isnan b \<and>
     (fst (dkey a) < fst (dkey b) \<or> (fst (dkey a) = fst (dkey b) \<and> snd (dkey a) < snd (dkey b))))"

definition dgreater :: "double \<Rightarrow> double \<Rightarrow> bool" where
  "dgreater a b = dless b a"

definition deq :: "double \<Rightarrow> double \<Rightarrow> bool" where
  "deq a b = (\<not> isnan a \<and> \<not> isnan b \<and> dkey a = dkey b)"

text \<open>\<^verbatim>\<open>floor\<close> of \<^verbatim>\<open><cmath>\<close>.\<close>

definition dfloor :: "double \<Rightarrow> double" where
  "dfloor x = (case x of Fin q \<Rightarrow> Fin (of_int \<lfloor>q\<rfloor>) | _ \<Rightarrow> x)"

text \<open>
  Rounding a non-negative rational to the nearest double, ties to even (IEEE 754 binary64:
  53 significant bits, least normal exponent \<open>-1022\<close>, overflow to infinity from \<open>2^1024\<close>).
\<close>

definition pow2 :: "int \<Rightarrow> rat" where
  "pow2 k = (if 0 \<le> k then 2 ^ nat k else 1 / 2 ^ nat (- k))"

definition ilog2 :: "rat \<Rightarrow> int" where
  "ilog2 q = (if 1 \<le> q then bitlen \<lfloor>q\<rfloor> - 1
              else let l = bitlen \<lfloor>1 / q\<rfloor>
                   in if 1 \<le> q * 2 ^ nat (l - 1) then - (l - 1) else - l)"

definition round_half_even :: "rat \<Rightarrow> int" where
  "round_half_even q =
     (let f = \<lfloor>q\<rfloor>; r = q - of_int f
      in if r < 1 / 2 then f else if 1 / 2 < r then f + 1 else if even f then f else f + 1)"

definition to_double :: "bool \<Rightarrow> rat \<Rightarrow> double" where
  "to_double neg q =
     (if q = 0 then (if neg then NegZero else Fin 0)
      else let e = max (ilog2 q) (- 1022);
               ulp = pow2 (e - 52);
               r = of_int (round_half_even (q / ulp)) * ulp
           in if 2 ^ 1024 \<le> r then (if neg then NegInf else PosInf)
              else if r = 0 then (if neg then NegZero else Fin 0)
              else Fin (if neg then - r else r))"


subsection \<open>The C library: character classes and strings\<close>

text \<open>\<^verbatim>\<open>isspace\<close>, \<^verbatim>\<open>isdigit\<close>, \<^verbatim>\<open>isxdigit\<close> and \<^verbatim>\<open>tolower\<close> in the C locale.\<close>

definition isspace :: "char \<Rightarrow> bool" where
  "isspace c = (c \<in> set [CHR '' '', CHR 0x09, CHR 0x0A, CHR 0x0B, CHR 0x0C, CHR 0x0D])"

definition isdigit :: "char \<Rightarrow> bool" where
  "isdigit c = (48 \<le> (of_char c :: nat) \<and> (of_char c :: nat) \<le> 57)"

definition isupper :: "char \<Rightarrow> bool" where
  "isupper c = (65 \<le> (of_char c :: nat) \<and> (of_char c :: nat) \<le> 90)"

definition tolower :: "char \<Rightarrow> char" where
  "tolower c = (if isupper c then char_of ((of_char c :: nat) + 32) else c)"

definition isxdigit :: "char \<Rightarrow> bool" where
  "isxdigit c = (isdigit c \<or> (97 \<le> (of_char (tolower c) :: nat) \<and> (of_char (tolower c) :: nat) \<le> 102))"

definition is_nchar :: "char \<Rightarrow> bool" where
  "is_nchar c = (isdigit c \<or> (97 \<le> (of_char (tolower c) :: nat) \<and> (of_char (tolower c) :: nat) \<le> 122)
                 \<or> c = CHR ''_'')"

definition digit_of :: "char \<Rightarrow> nat" where
  "digit_of c = (if isdigit c then of_char c - 48 else of_char (tolower c) - 87)"

definition digit_char :: "nat \<Rightarrow> char" where
  "digit_char d = char_of (48 + d)"

text \<open>The value of a digit string in a base, most significant digit first.\<close>

definition nat_of_digits :: "nat \<Rightarrow> string \<Rightarrow> nat" where
  "nat_of_digits b ds = foldl (\<lambda>acc c. acc * b + digit_of c) 0 ds"

text \<open>The decimal digits of a natural number, without leading zeros.\<close>

fun show_nat :: "nat \<Rightarrow> string" where
  "show_nat n = (if n < 10 then [digit_char n] else show_nat (n div 10) @ [digit_char (n mod 10)])"

declare show_nat.simps [simp del]

text \<open>\<^verbatim>\<open>std::string::c_str\<close> read as a C string: the characters before the first NUL.\<close>

definition c_str :: "string \<Rightarrow> string" where
  "c_str s = takeWhile (\<lambda>c. c \<noteq> CHR 0x00) s"

text \<open>\<^verbatim>\<open>std::string::find (sub, 0)\<close>: the first position of \<open>sub\<close>, \<open>None\<close> for \<^verbatim>\<open>npos\<close>.\<close>

fun find_str :: "string \<Rightarrow> string \<Rightarrow> nat option" where
  "find_str sub [] = (if sub = [] then Some 0 else None)"
| "find_str sub (c # cs) =
     (if prefix sub (c # cs) then Some 0 else map_option Suc (find_str sub cs))"

text \<open>
  \<^verbatim>\<open>snprintf (buffer, size, ...)\<close> writes at most \<open>size - 1\<close> characters of the
  formatted text, and the terminating NUL.
\<close>

definition snprintf :: "nat \<Rightarrow> string \<Rightarrow> string" where
  "snprintf n text = take (n - 1) text"

subsection \<open>The C library: reading numbers\<close>

text \<open>
  The conversions \<^verbatim>\<open>%lf\<close> and \<^verbatim>\<open>%d\<close> of \<^verbatim>\<open>sscanf\<close> (ISO C, 7.21.6.2). The input
  item of \<^verbatim>\<open>%lf\<close> is the longest sequence of characters that is, or is a prefix of, a
  subject sequence of \<^verbatim>\<open>strtod\<close>: an optional sign, then a decimal floating constant, a
  hexadecimal one after \<^verbatim>\<open>0x\<close>, \<^verbatim>\<open>inf\<close> or \<^verbatim>\<open>infinity\<close>, or \<^verbatim>\<open>nan\<close> with an
  optional parenthesised character sequence (letters in any case). An item that is not
  itself a subject sequence is a matching failure, here \<open>None\<close>. A scanner returns what it
  read and the rest of the input.
\<close>

definition scan_sign :: "string \<Rightarrow> bool \<times> string" where
  "scan_sign s =
     (case s of [] \<Rightarrow> (False, s)
      | c # t \<Rightarrow> if c = CHR ''-'' then (True, t) else if c = CHR ''+'' then (False, t) else (False, s))"

definition scan_exp :: "string \<Rightarrow> string \<Rightarrow> (int \<times> string) option" where
  "scan_exp marks s =
     (case s of [] \<Rightarrow> Some (0, s)
      | c # t \<Rightarrow>
          if c \<in> set marks then
            (let (neg, u) = scan_sign t; ds = takeWhile isdigit u
             in if ds = [] then None
                else Some (if neg then - int (nat_of_digits 10 ds) else int (nat_of_digits 10 ds),
                           dropWhile isdigit u))
          else Some (0, s))"

definition scan_fraction :: "(char \<Rightarrow> bool) \<Rightarrow> string \<Rightarrow> string \<times> string" where
  "scan_fraction digit s =
     (case s of [] \<Rightarrow> ([], s)
      | c # t \<Rightarrow> if c = CHR ''.'' then (takeWhile digit t, dropWhile digit t) else ([], s))"

definition pow10 :: "int \<Rightarrow> rat" where
  "pow10 k = (if 0 \<le> k then 10 ^ nat k else 1 / 10 ^ nat (- k))"

definition scan_decimal :: "string \<Rightarrow> (rat \<times> string) option" where
  "scan_decimal s =
     (let ip = takeWhile isdigit s;
          (fp, s2) = scan_fraction isdigit (dropWhile isdigit s)
      in if ip = [] \<and> fp = [] then None
         else case scan_exp ''eE'' s2 of
                None \<Rightarrow> None
              | Some (e, s3) \<Rightarrow>
                  Some (of_nat (nat_of_digits 10 (ip @ fp)) * pow10 (e - int (length fp)), s3))"

definition scan_hex :: "string \<Rightarrow> (rat \<times> string) option" where
  "scan_hex s =
     (let ip = takeWhile isxdigit s;
          (fp, s2) = scan_fraction isxdigit (dropWhile isxdigit s)
      in if ip = [] \<and> fp = [] then None
         else case scan_exp ''pP'' s2 of
                None \<Rightarrow> None
              | Some (e, s3) \<Rightarrow>
                  Some (of_nat (nat_of_digits 16 (ip @ fp)) * pow2 (e - 4 * int (length fp)), s3))"

text \<open>The longest prefix of the input that is, letter case apart, a prefix of \<open>word\<close>.\<close>

fun common_prefix :: "string \<Rightarrow> string \<Rightarrow> nat" where
  "common_prefix (w # ws) (c # cs) = (if tolower c = w then Suc (common_prefix ws cs) else 0)"
| "common_prefix _ _ = 0"

definition scan_inf :: "bool \<Rightarrow> string \<Rightarrow> (double \<times> string) option" where
  "scan_inf neg s =
     (let n = common_prefix ''infinity'' s
      in if n = 3 \<or> n = 8 then Some (if neg then NegInf else PosInf, drop n s) else None)"

definition scan_nan :: "bool \<Rightarrow> string \<Rightarrow> (double \<times> string) option" where
  "scan_nan neg s =
     (if common_prefix ''nan'' s = 3 then
        (case drop 3 s of
           [] \<Rightarrow> Some (NaN neg, [])
         | c # t \<Rightarrow>
             if c = CHR ''('' then
               (case dropWhile is_nchar t of
                  [] \<Rightarrow> None
                | d # u \<Rightarrow> if d = CHR '')'' then Some (NaN neg, u) else None)
             else Some (NaN neg, c # t))
      else None)"

definition scan_number :: "string \<Rightarrow> (double \<times> string) option" where
  "scan_number s =
     (let (neg, s1) = scan_sign s
      in case s1 of
           [] \<Rightarrow> None
         | c # t \<Rightarrow>
             if tolower c = CHR ''i'' then scan_inf neg s1
             else if tolower c = CHR ''n'' then scan_nan neg s1
             else if c = CHR ''0'' \<and> (case t of [] \<Rightarrow> False | x # _ \<Rightarrow> tolower x = CHR ''x'') then
               map_option (\<lambda>(q, r). (to_double neg q, r)) (scan_hex (tl t))
             else map_option (\<lambda>(q, r). (to_double neg q, r)) (scan_decimal s1))"

text \<open>The input item of \<^verbatim>\<open>%d\<close>: an optional sign and decimal digits.\<close>

definition scan_int :: "string \<Rightarrow> (int \<times> string) option" where
  "scan_int s =
     (let (neg, s1) = scan_sign s; ds = takeWhile isdigit s1
      in if ds = [] then None
         else Some (if neg then - int (nat_of_digits 10 ds) else int (nat_of_digits 10 ds),
                    dropWhile isdigit s1))"

text \<open>
  \<^verbatim>\<open>sscanf (input, "%lf!!%c", &value, &c)\<close> on a C string: the returned count, and the
  two variables after the call. White space before the number is skipped; the count is
  \<^verbatim>\<open>EOF\<close> when the input ends before the first conversion.
\<close>

definition sscanf_lf :: "string \<Rightarrow> double \<Rightarrow> char \<Rightarrow> int \<times> double \<times> char" where
  "sscanf_lf input value c =
     (let s = dropWhile isspace input
      in if s = [] then (- 1, value, c)
         else case scan_number s of
                None \<Rightarrow> (0, value, c)
              | Some (d, r) \<Rightarrow>
                  (case r of
                     a # b # x # _ \<Rightarrow> if a = CHR ''!'' \<and> b = CHR ''!'' then (2, d, x) else (1, d, c)
                   | _ \<Rightarrow> (1, d, c)))"

text \<open>
  \<^verbatim>\<open>sscanf (input, "%d!!%c", &value, &c)\<close>. A number that an \<^verbatim>\<open>int\<close> cannot hold is
  undefined behaviour in ISO C; it wraps around here.
\<close>

definition sscanf_d :: "string \<Rightarrow> intp_t \<Rightarrow> char \<Rightarrow> int \<times> intp_t \<times> char" where
  "sscanf_d input value c =
     (let s = dropWhile isspace input
      in if s = [] then (- 1, value, c)
         else case scan_int s of
                None \<Rightarrow> (0, value, c)
              | Some (i, r) \<Rightarrow>
                  (case r of
                     a # b # x # _ \<Rightarrow>
                       if a = CHR ''!'' \<and> b = CHR ''!'' then (2, word_of_int i, x) else (1, word_of_int i, c)
                   | _ \<Rightarrow> (1, word_of_int i, c)))"

subsection \<open>The C library: printing numbers\<close>

text \<open>The conversions \<^verbatim>\<open>%d\<close>, \<^verbatim>\<open>%.1f\<close> and \<^verbatim>\<open>%g\<close> of \<^verbatim>\<open>snprintf\<close>.\<close>

definition fmt_d :: "int \<Rightarrow> string" where
  "fmt_d i = (if i < 0 then CHR ''-'' # show_nat (nat (- i)) else show_nat (nat i))"

definition fmt_special :: "double \<Rightarrow> string" where
  "fmt_special x =
     (case x of PosInf \<Rightarrow> ''inf'' | NegInf \<Rightarrow> ''-inf'' | NaN neg \<Rightarrow> (if neg then ''-nan'' else ''nan'')
      | _ \<Rightarrow> [])"

definition fmt_f1 :: "double \<Rightarrow> string" where
  "fmt_f1 x =
     (case x of
        Fin q \<Rightarrow>
          (let n = round_half_even (\<bar>q\<bar> * 10)
           in (if q < 0 then ''-'' else []) @ show_nat (nat (n div 10)) @ ''.'' @ show_nat (nat (n mod 10)))
      | NegZero \<Rightarrow> ''-0.0''
      | _ \<Rightarrow> fmt_special x)"

definition ilog10 :: "rat \<Rightarrow> int" where
  "ilog10 q = (if 1 \<le> q then int (floorlog 10 (nat \<lfloor>q\<rfloor>)) - 1
               else let l = int (floorlog 10 (nat \<lfloor>1 / q\<rfloor>))
                    in if 1 \<le> q * 10 ^ nat (l - 1) then - (l - 1) else - l)"

definition strip_zeros :: "string \<Rightarrow> string" where
  "strip_zeros ds = rev (dropWhile (\<lambda>c. c = CHR ''0'') (rev ds))"

definition with_fraction :: "string \<Rightarrow> string \<Rightarrow> string" where
  "with_fraction ip fp = (if strip_zeros fp = [] then ip else ip @ ''.'' @ strip_zeros fp)"

text \<open>
  \<^verbatim>\<open>%g\<close> of a positive value: six significant digits, in the style of \<^verbatim>\<open>%e\<close> when the
  decimal exponent is below \<open>-4\<close> or at least 6, of \<^verbatim>\<open>%f\<close> otherwise, without trailing zeros.
\<close>

definition fmt_g_pos :: "rat \<Rightarrow> string" where
  "fmt_g_pos a =
     (let x0 = ilog10 a;
          m0 = round_half_even (a / pow10 (x0 - 5));
          (x, m) = (if m0 = 1000000 then (x0 + 1, 100000) else (x0, m0));
          ds = show_nat (nat m)
      in if x < - 4 \<or> 6 \<le> x then
           with_fraction (take 1 ds) (drop 1 ds) @ ''e'' @ (if x < 0 then ''-'' else ''+'')
             @ (if \<bar>x\<bar> < 10 then ''0'' else []) @ show_nat (nat \<bar>x\<bar>)
         else if 0 \<le> x then with_fraction (take (nat x + 1) ds) (drop (nat x + 1) ds)
         else with_fraction ''0'' (replicate (nat (- x) - 1) (CHR ''0'') @ ds))"

definition fmt_g :: "double \<Rightarrow> string" where
  "fmt_g x =
     (case x of
        Fin q \<Rightarrow> if q = 0 then ''0'' else (if q < 0 then ''-'' else []) @ fmt_g_pos \<bar>q\<bar>
      | NegZero \<Rightarrow> ''-0''
      | _ \<Rightarrow> fmt_special x)"

subsection \<open>Utility functions\<close>

definition warning :: "string \<Rightarrow> string list" where
  "warning message = [message]"

definition stripString :: "string \<Rightarrow> string" where
  "stripString s = rev (dropWhile isspace (rev (dropWhile isspace s)))"

fun join_from :: "bool \<Rightarrow> string list \<Rightarrow> string \<Rightarrow> string" where
  "join_from first [] w = []"
| "join_from first (item # args) w = (if first then [] else w) @ item @ join_from False args w"

definition join :: "string list \<Rightarrow> string \<Rightarrow> string" where
  "join args w = join_from True args w"

definition str2real :: "string \<Rightarrow> double \<Rightarrow> bool \<times> double" where
  "str2real s value =
     (if find_str ''!!'' s \<noteq> None then (False, value)
      else let temp = stripString s @ ''!!x'';
               (n, value', c) = sscanf_lf (c_str temp) value (CHR '' '')
           in if n \<noteq> 2 then (False, value')
              else if c \<noteq> CHR ''x'' then (False, value')
              else (True, value'))"

definition dmin :: double where
  "dmin = Fin (- 2147483648)"

definition dmax :: double where
  "dmax = Fin 2147483647"

text \<open>
  The local \<^verbatim>\<open>double real\<close> of \<^verbatim>\<open>str2int\<close> is not initialised; it is read only
  after \<^verbatim>\<open>str2real\<close> has stored a value in it.
\<close>

definition str2int :: "string \<Rightarrow> intp_t \<Rightarrow> bool \<times> intp_t" where
  "str2int s value =
     (let (ok, real') = str2real s (Fin 0)
      in if \<not> ok then (False, value)
         else if dless real' dmin then (False, value)
         else if dgreater real' dmax then (False, value)
         else let temp = stripString s @ ''!!x'';
                  (n, value', c) = sscanf_d (c_str temp) value (CHR '' '')
              in if n \<noteq> 2 then (False, value')
                 else if c \<noteq> CHR ''x'' then (False, value')
                 else (True, value'))"

definition real2str :: "double \<Rightarrow> string" where
  "real2str x =
     (let wholeNumber = deq (dfloor x) x
      in if wholeNumber then snprintf 40 (fmt_f1 x) else snprintf 40 (fmt_g x))"

definition int2str :: "intp_t \<Rightarrow> string" where
  "int2str i = snprintf 40 (fmt_d (sint i))"


text \<open>\<^verbatim>\<open>indexOf\<close>: the position of the first item equal to the value, or \<open>-1\<close>.\<close>

fun indexOf_from :: "int \<Rightarrow> string list \<Rightarrow> string \<Rightarrow> int" where
  "indexOf_from index [] v = - 1"
| "indexOf_from index (item # opts) v =
     (if v = item then index + 1 else indexOf_from (index + 1) opts v)"

definition indexOf :: "string list \<Rightarrow> string \<Rightarrow> int" where
  "indexOf opts v = indexOf_from (- 1) opts v"

subsection \<open>Option specifications\<close>

datatype Kind = kFlag | kStr | kEnum | kInt | kReal

record OptionSpec =
  m_kind :: Kind
  m_longName :: string
  m_shortName :: char
  m_description :: string
  m_isRequired :: bool
  m_isSingleton :: bool
  m_enumOptions :: "string list"
  m_rangeIsDefined :: bool
  m_minIntValue :: intp_t
  m_maxIntValue :: intp_t
  m_minRealValue :: double
  m_maxRealValue :: double
  m_evIsDefined :: bool
  m_evName :: string
  m_defaultIsDefined :: bool
  m_defaultStr :: string
  m_defaultInt :: intp_t
  m_defaultReal :: double

definition kindImage :: "Kind \<Rightarrow> string" where
  "kindImage k = (case k of kFlag \<Rightarrow> ''flag'' | kStr \<Rightarrow> ''string'' | kEnum \<Rightarrow> ''enumSpec''
                  | kInt \<Rightarrow> ''integer'' | kReal \<Rightarrow> ''real'')"

text \<open>The constructor \<^verbatim>\<open>OptionSpec (kind, longName, shortName, description, isRequired)\<close>.\<close>

definition newOptionSpec :: "Kind \<Rightarrow> string \<Rightarrow> char \<Rightarrow> string \<Rightarrow> bool \<Rightarrow> OptionSpec" where
  "newOptionSpec kindIn longNameIn shortNameIn descriptionIn isRequiredIn =
     \<lparr> m_kind = kindIn, m_longName = longNameIn, m_shortName = shortNameIn,
       m_description = descriptionIn, m_isRequired = isRequiredIn,
       m_isSingleton = False, m_enumOptions = [],
       m_rangeIsDefined = False, m_minIntValue = 0, m_maxIntValue = 0,
       m_minRealValue = Fin 0, m_maxRealValue = Fin 0,
       m_evIsDefined = False, m_evName = [],
       m_defaultIsDefined = False, m_defaultStr = [], m_defaultInt = 0, m_defaultReal = Fin 0 \<rparr>"

definition help' :: OptionSpec where
  "help' = (newOptionSpec kFlag ''help'' (CHR ''h'') ''Show this message and exit.'' False)
             \<lparr> m_isSingleton := True, m_defaultIsDefined := True \<rparr>"

definition version :: OptionSpec where
  "version = (newOptionSpec kFlag ''version'' (CHR ''V'') ''Show version and exit.'' False)
               \<lparr> m_isSingleton := True, m_defaultIsDefined := True \<rparr>"

definition flagSpec :: "string \<Rightarrow> char \<Rightarrow> string \<Rightarrow> bool \<Rightarrow> OptionSpec" where
  "flagSpec longName shortName description isSingleton =
     (newOptionSpec kFlag longName shortName description False)
       \<lparr> m_defaultIsDefined := True, m_isSingleton := isSingleton \<rparr>"

definition strSpec :: "string \<Rightarrow> char \<Rightarrow> string \<Rightarrow> bool \<Rightarrow> OptionSpec" where
  "strSpec longName shortName description isRequired =
     newOptionSpec kStr longName shortName description isRequired"

definition enumSpec :: "string \<Rightarrow> char \<Rightarrow> string \<Rightarrow> string list \<Rightarrow> bool \<Rightarrow> OptionSpec" where
  "enumSpec longName shortName description enumOptions isRequired =
     (newOptionSpec kEnum longName shortName description isRequired)
       \<lparr> m_enumOptions := enumOptions \<rparr>"

definition intSpec :: "string \<Rightarrow> char \<Rightarrow> string \<Rightarrow> bool \<Rightarrow> OptionSpec" where
  "intSpec longName shortName description isRequired =
     newOptionSpec kInt longName shortName description isRequired"

definition realSpec :: "string \<Rightarrow> char \<Rightarrow> string \<Rightarrow> bool \<Rightarrow> OptionSpec" where
  "realSpec longName shortName description isRequired =
     newOptionSpec kReal longName shortName description isRequired"

definition name :: "OptionSpec \<Rightarrow> string" where
  "name spec =
     (if m_shortName spec \<noteq> CHR 0x00 then ''-'' @ [m_shortName spec] @ '', --'' @ m_longName spec
      else ''--'' @ m_longName spec)"

definition range' :: "OptionSpec \<Rightarrow> string" where
  "range' spec =
     (if m_kind spec \<noteq> kInt \<and> m_kind spec \<noteq> kReal then []
      else if \<not> m_rangeIsDefined spec then []
      else let (v1, v2) =
                 (if m_kind spec = kInt then (int2str (m_minIntValue spec), int2str (m_maxIntValue spec))
                  else (real2str (m_minRealValue spec), real2str (m_maxRealValue spec)))
           in snprintf 40 (c_str v1 @ '' to '' @ c_str v2))"

definition enum_set :: "OptionSpec \<Rightarrow> string" where
  "enum_set spec =
     (if m_kind spec \<noteq> kEnum then ''(nil)'' else ''('' @ join (m_enumOptions spec) '', '' @ '')'')"

definition info :: "OptionSpec \<Rightarrow> string" where
  "info spec = ''the '' @ kindImage (m_kind spec) @ '' option '' @ [CHR 0x27] @ m_longName spec @ [CHR 0x27]"

text \<open>
  The qualifiers. Each returns what it wrote to \<^verbatim>\<open>std::cerr\<close> and the clone of the
  specification, qualified or not.
\<close>

definition defStr :: "OptionSpec \<Rightarrow> string \<Rightarrow> string list \<times> OptionSpec" where
  "defStr this defValue =
     (let clone = this
      in if m_kind clone \<noteq> kStr \<and> m_kind clone \<noteq> kEnum then
           (warning (''default string value for '' @ info this @ '' ignored.''), clone)
         else if m_defaultIsDefined clone then
           (warning (''secondary default value for '' @ info this @ '' ignored.''), clone)
         else if m_kind clone = kEnum \<and> indexOf (m_enumOptions clone) defValue = - 1 then
           (warning (''the default value for '' @ info this @ '' is not an allowed value.''), clone)
         else ([], clone \<lparr> m_defaultStr := defValue, m_defaultIsDefined := True \<rparr>))"

definition defInt :: "OptionSpec \<Rightarrow> intp_t \<Rightarrow> string list \<times> OptionSpec" where
  "defInt this defValue =
     (let clone = this
      in if m_kind clone \<noteq> kInt then
           (warning (''default integer value for '' @ info this @ '' ignored.''), clone)
         else if m_defaultIsDefined clone then
           (warning (''secondary default value for '' @ info this @ '' ignored.''), clone)
         else
           ((if m_rangeIsDefined clone \<and>
                (sint defValue < sint (m_minIntValue clone) \<or> sint defValue > sint (m_maxIntValue clone))
             then warning (''the default value for '' @ info this @ '' is out of range.'') else []),
            clone \<lparr> m_defaultInt := defValue, m_defaultIsDefined := True \<rparr>))"

definition intRange :: "OptionSpec \<Rightarrow> intp_t \<Rightarrow> intp_t \<Rightarrow> string list \<times> OptionSpec" where
  "intRange this min' max' =
     (let clone = this
      in if m_kind clone \<noteq> kInt then
           (warning (''integer range constraint for '' @ info this @ '' ignored.''), clone)
         else if m_rangeIsDefined clone then
           (warning (''secondary range constraint for '' @ info this @ '' ignored.''), clone)
         else
           ((if m_defaultIsDefined clone \<and>
                (sint (m_defaultInt clone) < sint min' \<or> sint (m_defaultInt clone) > sint max')
             then warning (''the default value for '' @ info this @ '' is out of range.'') else []),
            clone \<lparr> m_minIntValue := min', m_maxIntValue := max', m_rangeIsDefined := True \<rparr>))"

definition defReal :: "OptionSpec \<Rightarrow> double \<Rightarrow> string list \<times> OptionSpec" where
  "defReal this defValue =
     (let clone = this
      in if m_kind clone \<noteq> kReal then
           (warning (''default real value for '' @ info this @ '' ignored.''), clone)
         else if m_defaultIsDefined clone then
           (warning (''secondary default value for '' @ info this @ '' ignored.''), clone)
         else
           ((if m_rangeIsDefined clone \<and>
                (dless defValue (m_minRealValue clone) \<or> dgreater defValue (m_maxRealValue clone))
             then warning (''the default value for '' @ info this @ '' is out of range.'') else []),
            clone \<lparr> m_defaultReal := defValue, m_defaultIsDefined := True \<rparr>))"

definition realRange :: "OptionSpec \<Rightarrow> double \<Rightarrow> double \<Rightarrow> string list \<times> OptionSpec" where
  "realRange this min' max' =
     (let clone = this
      in if m_kind clone \<noteq> kReal then
           (warning (''real range constraint for '' @ info this @ '' ignored.''), clone)
         else if m_rangeIsDefined clone then
           (warning (''secondary range constraint for '' @ info this @ '' ignored.''), clone)
         else
           ((if m_defaultIsDefined clone \<and>
                (dless (m_defaultReal clone) min' \<or> dgreater (m_defaultReal clone) max')
             then warning (''the default value for '' @ info this @ '' is out of range.'') else []),
            clone \<lparr> m_minRealValue := min', m_maxRealValue := max', m_rangeIsDefined := True \<rparr>))"

definition envVar :: "OptionSpec \<Rightarrow> string \<Rightarrow> string list \<times> OptionSpec" where
  "envVar this envVarName =
     (let clone = this
      in if m_evIsDefined clone then
           (warning (''secondary environment variable for '' @ info this @ '' ignored.''), clone)
         else ([], clone \<lparr> m_evName := envVarName, m_evIsDefined := (length envVarName > 0) \<rparr>))"


subsection \<open>The parser\<close>

text \<open>
  The working record of an option during \<^verbatim>\<open>process\<close>. \<^verbatim>\<open>theMap\<close> of
  \<^verbatim>\<open>OptionValues\<close> holds one record for each long name; a record is reached through
  its own shared pointer only, so a write through the pointer is an update of the map.
\<close>

record ProxyValue =
  isDefined :: bool
  flag :: bool
  str :: string
  ival :: intp_t
  real' :: double
  m_alreadySpecified :: bool
  m_spec :: OptionSpec

record Parsley =
  m_specList :: "OptionSpec list"
  m_specListOkay :: bool
  m_errorMessage :: string
  m_optionValues :: "string \<rightharpoonup> ProxyValue"
  m_parameters :: "string list"
  m_cpl :: int
  m_extraNewLine :: bool
  m_includeNoMore :: bool

text \<open>
  The constructor: the two nested loops over the list, the inner one passing over the
  first \<open>skip\<close> specifications. It returns the warnings and the object.
\<close>

definition conflicting :: "OptionSpec \<Rightarrow> OptionSpec \<Rightarrow> bool" where
  "conflicting specA specB =
     (m_longName specA = m_longName specB \<or>
      (m_shortName specA \<noteq> CHR 0x00 \<and> m_shortName specA = m_shortName specB))"

fun checkAgainst :: "OptionSpec \<Rightarrow> int \<Rightarrow> int \<Rightarrow> OptionSpec list \<Rightarrow> string list \<times> bool
                     \<Rightarrow> string list \<times> bool" where
  "checkAgainst specA skip count [] acc = acc"
| "checkAgainst specA skip count (specB # rest) acc =
     (if count + 1 \<le> skip then checkAgainst specA skip (count + 1) rest acc
      else if conflicting specA specB then
        checkAgainst specA skip (count + 1) rest
          (fst acc @ warning (''conflicting option names: '' @ name specA @ '' and '' @ name specB), False)
      else checkAgainst specA skip (count + 1) rest acc)"

fun checkDuplicates :: "OptionSpec list \<Rightarrow> int \<Rightarrow> OptionSpec list \<Rightarrow> string list \<times> bool
                        \<Rightarrow> string list \<times> bool" where
  "checkDuplicates specList skip [] acc = acc"
| "checkDuplicates specList skip (specA # rest) acc =
     checkDuplicates specList (skip + 1) rest (checkAgainst specA (skip + 1) 0 specList acc)"

definition newParsley :: "OptionSpec list \<Rightarrow> string list \<times> Parsley" where
  "newParsley specList =
     (let (warnings, okay) = checkDuplicates specList 0 specList ([], True)
      in (warnings,
          \<lparr> m_specList = specList, m_specListOkay = okay, m_errorMessage = [],
            m_optionValues = Map.empty, m_parameters = [],
            m_cpl = 92, m_extraNewLine = False, m_includeNoMore = False \<rparr>))"

text \<open>\<^verbatim>\<open>std::getenv\<close> on an environment, a map from names to values.\<close>

definition getenv :: "(string \<rightharpoonup> string) \<Rightarrow> string \<Rightarrow> string option" where
  "getenv env nm = env (c_str nm)"

text \<open>
  The body of the first loop of \<^verbatim>\<open>process\<close>: the working record of a specification
  from its default and its environment variable, or the error message.
\<close>

definition seedValue :: "(string \<rightharpoonup> string) \<Rightarrow> OptionSpec \<Rightarrow> string + ProxyValue" where
  "seedValue env spec =
     (let value = \<lparr> isDefined = m_defaultIsDefined spec, flag = False, str = [], ival = 0,
                    real' = Fin 0, m_alreadySpecified = False, m_spec = spec \<rparr>;
          source = (if m_defaultIsDefined spec then ''default'' else []);
          envp = (if m_evIsDefined spec then getenv env (m_evName spec) else None);
          envVarValueAvalable = (envp \<noteq> None);
          evValue = (case envp of None \<Rightarrow> [] | Some v \<Rightarrow> v)
      in case m_kind spec of
           kFlag \<Rightarrow>
             Inr (if envVarValueAvalable \<and> (evValue = ''1'' \<or> evValue = ''Y'' \<or> evValue = ''YES'')
                  then value \<lparr> flag := True \<rparr> else value \<lparr> flag := False \<rparr>)
         | kStr \<Rightarrow>
             Inr (if envVarValueAvalable then value \<lparr> str := evValue, isDefined := True \<rparr>
                  else value \<lparr> str := m_defaultStr spec \<rparr>)
         | kEnum \<Rightarrow>
             (let source = (if envVarValueAvalable then ''environment variable '' @ m_evName spec
                            else source);
                  value = (if envVarValueAvalable then value \<lparr> str := evValue, isDefined := True \<rparr>
                           else value \<lparr> str := m_defaultStr spec \<rparr>)
              in if isDefined value then
                   (let value = value \<lparr> ival := word_of_int (indexOf (m_enumOptions spec) (str value)) \<rparr>
                    in if sint (ival value) < 0 then
                         Inl (''invalid '' @ source @ '' value for '' @ name spec @ '' : '' @ str value
                              @ '' is not one of '' @ enum_set spec)
                       else Inr value)
                 else Inr value)
         | kInt \<Rightarrow>
             (let value = value \<lparr> ival := m_defaultInt spec \<rparr>
              in if envVarValueAvalable then
                   (let source = ''environment variable '' @ m_evName spec;
                        (status, i) = str2int evValue (ival value)
                    in if \<not> status then
                         Inl (''invalid '' @ source @ '' value for '' @ name spec @ '' : '' @ [CHR 0x27]
                              @ evValue @ [CHR 0x27] @ '' is not a valid integer.'')
                       else Inr (value \<lparr> ival := i, isDefined := True \<rparr>))
                 else Inr value)
         | kReal \<Rightarrow>
             (let value = value \<lparr> real' := m_defaultReal spec \<rparr>
              in if envVarValueAvalable then
                   (let source = ''environment variable '' @ m_evName spec;
                        (status, r) = str2real evValue (real' value)
                    in if \<not> status then
                         Inl (''invalid '' @ source @ '' value for '' @ name spec @ '' : '' @ [CHR 0x27]
                              @ evValue @ [CHR 0x27] @ '' is not a valid floating point number.'')
                       else Inr (value \<lparr> real' := r, isDefined := True \<rparr>))
                 else Inr value))"

text \<open>The first loop: \<open>Inl\<close> is the object at \<^verbatim>\<open>return false\<close>, \<open>Inr\<close> at the end of the loop.\<close>

fun seedValues :: "(string \<rightharpoonup> string) \<Rightarrow> OptionSpec list \<Rightarrow> Parsley \<Rightarrow> Parsley + Parsley" where
  "seedValues env [] this = Inr this"
| "seedValues env (spec # specs) this =
     (case seedValue env spec of
        Inl message \<Rightarrow> Inl (this \<lparr> m_errorMessage := message \<rparr>)
      | Inr value \<Rightarrow>
          seedValues env specs
            (this \<lparr> m_optionValues := (m_optionValues this)(m_longName spec \<mapsto> value) \<rparr>))"

text \<open>The specification an option argument names, or the error message.\<close>

definition findSpec :: "OptionSpec list \<Rightarrow> string \<Rightarrow> string + OptionSpec" where
  "findSpec specList arg =
     (if length arg = 2 then
        (case find (\<lambda>checkSpec. m_shortName checkSpec = arg ! 1) specList of
           None \<Rightarrow> Inl (''no such option: '' @ arg)
         | Some spec \<Rightarrow> Inr spec)
      else if length arg \<ge> 3 \<and> take 2 arg = ''--'' then
        (case find (\<lambda>checkSpec. m_longName checkSpec = drop 2 arg) specList of
           None \<Rightarrow> Inl (''no such option: '' @ arg)
         | Some spec \<Rightarrow> Inr spec)
      else Inl (''invalid option format: '' @ arg))"

text \<open>The macro \<^verbatim>\<open>CHECK_ARGUMENT\<close>: the next argument and the arguments after it.\<close>

definition CHECK_ARGUMENT :: "OptionSpec \<Rightarrow> string list \<Rightarrow> string + string \<times> string list" where
  "CHECK_ARGUMENT spec rest =
     (case rest of
        [] \<Rightarrow> Inl (''option '' @ name spec @ '' requires an argument.'')
      | argValue # rest' \<Rightarrow> Inr (argValue, rest'))"

text \<open>
  The \<^verbatim>\<open>switch\<close> on the kind of a recognised option: \<open>Inl\<close> is the error message and
  the working record as the failed case left it, \<open>Inr\<close> the record and the arguments left.
\<close>

definition optionCase :: "OptionSpec \<Rightarrow> ProxyValue \<Rightarrow> string list
                          \<Rightarrow> string \<times> ProxyValue + ProxyValue \<times> string list" where
  "optionCase spec value rest =
     (case m_kind spec of
        kFlag \<Rightarrow> Inr (value \<lparr> flag := True, isDefined := True \<rparr>, rest)
      | kStr \<Rightarrow>
          (case CHECK_ARGUMENT spec rest of
             Inl message \<Rightarrow> Inl (message, value)
           | Inr (argValue, rest') \<Rightarrow> Inr (value \<lparr> str := argValue, isDefined := True \<rparr>, rest'))
      | kEnum \<Rightarrow>
          (case CHECK_ARGUMENT spec rest of
             Inl message \<Rightarrow> Inl (message, value)
           | Inr (argValue, rest') \<Rightarrow>
               (let value = value \<lparr> ival := word_of_int (indexOf (m_enumOptions spec) argValue) \<rparr>
                in if sint (ival value) < 0 then
                     Inl (''invalid value for '' @ name spec @ '' : '' @ argValue
                          @ '' is not one of '' @ enum_set spec, value)
                   else Inr (value \<lparr> str := argValue, isDefined := True \<rparr>, rest')))
      | kInt \<Rightarrow>
          (case CHECK_ARGUMENT spec rest of
             Inl message \<Rightarrow> Inl (message, value)
           | Inr (argValue, rest') \<Rightarrow>
               (let (status, i) = str2int argValue (ival value);
                    value = value \<lparr> ival := i \<rparr>
                in if \<not> status then
                     Inl (''invalid value for '' @ name spec @ '' : '' @ [CHR 0x27] @ argValue
                          @ [CHR 0x27] @ '' is not a valid integer.'', value)
                   else if m_rangeIsDefined spec \<and>
                           (sint (ival value) < sint (m_minIntValue spec) \<or>
                            sint (ival value) > sint (m_maxIntValue spec)) then
                     Inl (''invalid value for '' @ name spec @ '' : '' @ int2str (ival value)
                          @ '' is out of range '' @ range' spec @ ''.'', value)
                   else Inr (value \<lparr> isDefined := True \<rparr>, rest')))
      | kReal \<Rightarrow>
          (case CHECK_ARGUMENT spec rest of
             Inl message \<Rightarrow> Inl (message, value)
           | Inr (argValue, rest') \<Rightarrow>
               (let (status, r) = str2real argValue (real' value);
                    value = value \<lparr> real' := r \<rparr>
                in if \<not> status then
                     Inl (''invalid value for '' @ name spec @ '' : '' @ [CHR 0x27] @ argValue
                          @ [CHR 0x27] @ '' is not a valid floating point number.'', value)
                   else if m_rangeIsDefined spec \<and>
                           (dless (real' value) (m_minRealValue spec) \<or>
                            dgreater (real' value) (m_maxRealValue spec)) then
                     Inl (''invalid value for '' @ name spec @ '' : '' @ real2str (real' value)
                          @ '' is out of range '' @ range' spec @ ''.'', value)
                   else Inr (value \<lparr> isDefined := True \<rparr>, rest'))))"

lemma optionCase_rest:
  "optionCase spec value rest = Inr (value', rest') \<Longrightarrow> length rest' \<le> length rest"
  by (cases "m_kind spec"; cases rest)
     (auto simp: optionCase_def CHECK_ARGUMENT_def Let_def split: prod.splits if_splits)

text \<open>
  The second loop, over the arguments: \<open>Returned\<close> is a \<^verbatim>\<open>return\<close> inside the loop,
  with its value and the object, \<open>Completed\<close> the end of the loop, with the local
  \<^verbatim>\<open>optionsComplete\<close> and the object. \<open>None\<close> is the use of a null pointer, when
  \<^verbatim>\<open>theMap\<close> has no record under the long name.
\<close>

datatype scan_result = Returned bool Parsley | Completed bool Parsley

function scanArguments :: "Parsley \<Rightarrow> bool \<Rightarrow> string list \<Rightarrow> scan_result option" where
  "scanArguments this optionsComplete [] = Some (Completed optionsComplete this)"
| "scanArguments this optionsComplete (arg # rest) =
     (if optionsComplete then
        scanArguments (this \<lparr> m_parameters := m_parameters this @ [arg] \<rparr>) optionsComplete rest
      else if arg = ''--'' then scanArguments this True rest
      else if length arg = 0 \<or> hd arg \<noteq> CHR ''-'' then
        scanArguments (this \<lparr> m_parameters := m_parameters this @ [arg] \<rparr>) True rest
      else
        (case findSpec (m_specList this) arg of
           Inl message \<Rightarrow> Some (Returned False (this \<lparr> m_errorMessage := message \<rparr>))
         | Inr spec \<Rightarrow>
             (case m_optionValues this (m_longName spec) of
                None \<Rightarrow> None
              | Some value \<Rightarrow>
                  if m_alreadySpecified value then
                    Some (Returned False (this \<lparr> m_errorMessage := ''duplicate option: '' @ name spec \<rparr>))
                  else
                    (case optionCase spec (value \<lparr> m_alreadySpecified := True \<rparr>) rest of
                       Inl (message, value') \<Rightarrow>
                         Some (Returned False
                           (this \<lparr> m_optionValues := (m_optionValues this)(m_longName spec \<mapsto> value'),
                                   m_errorMessage := message \<rparr>))
                     | Inr (value', rest') \<Rightarrow>
                         (let this' = this \<lparr> m_optionValues :=
                                                 (m_optionValues this)(m_longName spec \<mapsto> value') \<rparr>
                          in if m_isSingleton spec then Some (Returned True this')
                             else scanArguments this' False rest')))))"
  by pat_completeness auto
termination
  by (relation "measure (\<lambda>(this, optionsComplete, args). length args)")
     (auto dest: optionCase_rest)

text \<open>
  The third loop, over the nodes of \<^verbatim>\<open>theMap\<close>. The order in which an
  \<^verbatim>\<open>unordered_map\<close> is traversed is not specified: \<open>nodes\<close> is the sequence of its keys
  in that order.
\<close>

fun checkRequired :: "Parsley \<Rightarrow> string list \<Rightarrow> bool \<times> Parsley" where
  "checkRequired this [] = (True, this)"
| "checkRequired this (node # nodes) =
     (case m_optionValues this node of
        None \<Rightarrow> checkRequired this nodes
      | Some value \<Rightarrow>
          if m_isRequired (m_spec value) \<and> \<not> isDefined value then
            (False, this \<lparr> m_errorMessage := ''a value is required for: '' @ name (m_spec value) \<rparr>)
          else checkRequired this nodes)"

text \<open>
  \<^verbatim>\<open>process\<close>: the returned value and the object after the call, for an environment
  and a traversal order of \<^verbatim>\<open>theMap\<close>.
\<close>

definition process :: "Parsley \<Rightarrow> (string \<rightharpoonup> string) \<Rightarrow> string list \<Rightarrow> string list \<Rightarrow> bool
                       \<Rightarrow> (bool \<times> Parsley) option" where
  "process this env nodes arguments skipProgramName =
     (let this = this \<lparr> m_errorMessage := [], m_optionValues := Map.empty, m_parameters := [] \<rparr>
      in if \<not> m_specListOkay this then
           Some (False, this \<lparr> m_errorMessage := ''option specification errors'' \<rparr>)
         else case seedValues env (m_specList this) this of
                Inl this \<Rightarrow> Some (False, this)
              | Inr this \<Rightarrow>
                  (case scanArguments this False (if skipProgramName then drop 1 arguments else arguments) of
                     None \<Rightarrow> None
                   | Some (Returned status this) \<Rightarrow> Some (status, this)
                   | Some (Completed optionsComplete this) \<Rightarrow> Some (checkRequired this nodes)))"

definition errorMessage :: "Parsley \<Rightarrow> string" where
  "errorMessage this = m_errorMessage this"

definition parameters :: "Parsley \<Rightarrow> string list" where
  "parameters this = m_parameters this"


text \<open>An object after any number of calls of \<^verbatim>\<open>process\<close>.\<close>

inductive after_calls :: "Parsley \<Rightarrow> Parsley \<Rightarrow> bool" where
  no_call: "after_calls this this"
| one_more: "after_calls this that \<Longrightarrow>
             process that env nodes arguments skipProgramName = Some (status, that') \<Longrightarrow>
             after_calls this that'"

text \<open>
  The constructors of \<^verbatim>\<open>OptionSpec\<close> are private: a specification is the result of one
  of the seven static functions, qualified any number of times.
\<close>

inductive built :: "OptionSpec \<Rightarrow> bool" where
  "built help'"
| "built version"
| "built (flagSpec longName shortName description isSingleton)"
| "built (strSpec longName shortName description isRequired)"
| "built (enumSpec longName shortName description enumOptions isRequired)"
| "built (intSpec longName shortName description isRequired)"
| "built (realSpec longName shortName description isRequired)"
| "built spec \<Longrightarrow> built (snd (defStr spec defValue))"
| "built spec \<Longrightarrow> built (snd (defInt spec defInt'))"
| "built spec \<Longrightarrow> built (snd (defReal spec defReal'))"
| "built spec \<Longrightarrow> built (snd (intRange spec minInt maxInt))"
| "built spec \<Longrightarrow> built (snd (realRange spec minReal maxReal))"
| "built spec \<Longrightarrow> built (snd (envVar spec envVarName))"

section \<open>Properties\<close>

subsection \<open>Qualifiers\<close>

text \<open>
  C9. A qualifier that does not fit the kind of the specification, a second default, range
  or environment variable, and a default of an enumeration that is not one of its values,
  are dropped: the returned specification equals the original one in every field, and one
  warning is written.
\<close>

theorem qualifier_dropped:
  "((m_kind s \<noteq> kStr \<and> m_kind s \<noteq> kEnum) \<or> m_defaultIsDefined s \<or>
      (m_kind s = kEnum \<and> indexOf (m_enumOptions s) v = - 1)
     \<longrightarrow> snd (defStr s v) = s \<and> length (fst (defStr s v)) = 1) \<and>
   (m_kind s \<noteq> kInt \<or> m_defaultIsDefined s
     \<longrightarrow> snd (defInt s i) = s \<and> length (fst (defInt s i)) = 1) \<and>
   (m_kind s \<noteq> kInt \<or> m_rangeIsDefined s
     \<longrightarrow> snd (intRange s lo hi) = s \<and> length (fst (intRange s lo hi)) = 1) \<and>
   (m_kind s \<noteq> kReal \<or> m_defaultIsDefined s
     \<longrightarrow> snd (defReal s r) = s \<and> length (fst (defReal s r)) = 1) \<and>
   (m_kind s \<noteq> kReal \<or> m_rangeIsDefined s
     \<longrightarrow> snd (realRange s rlo rhi) = s \<and> length (fst (realRange s rlo rhi)) = 1) \<and>
   (m_evIsDefined s
     \<longrightarrow> snd (envVar s n) = s \<and> length (fst (envVar s n)) = 1)"
  by (simp add: defStr_def defInt_def intRange_def defReal_def realRange_def envVar_def
      warning_def Let_def)

text \<open>
  An integer option with a default, a range and an environment variable, qualified once
  more in each way, and an enumeration given a default that it does not list.
\<close>

definition widgets :: OptionSpec where
  "widgets = snd (envVar (snd (intRange (snd (defInt
               (intSpec ''number'' (CHR ''n'') ''Number of widgets.'' False) 4)) 1 20)) ''WIDGETS'')"

definition mode :: OptionSpec where
  "mode = enumSpec ''mode'' (CHR ''m'') ''The mode.'' [''aaa'', ''bbb'', ''ccc''] False"

lemma widgets_fields:
  "m_kind widgets = kInt" "m_defaultIsDefined widgets" "m_rangeIsDefined widgets"
  "m_evIsDefined widgets"
  by (simp_all add: widgets_def defInt_def intRange_def envVar_def intSpec_def
      newOptionSpec_def Let_def)

lemma mode_fields:
  "m_kind mode = kEnum" "\<not> m_defaultIsDefined mode" "indexOf (m_enumOptions mode) ''zzz'' = - 1"
  by (simp_all add: mode_def enumSpec_def newOptionSpec_def indexOf_def)

theorem qualifier_dropped_witness:
  "m_kind widgets \<noteq> kStr \<and> m_kind widgets \<noteq> kEnum \<and> m_kind widgets \<noteq> kReal \<and>
   m_defaultIsDefined widgets \<and> m_rangeIsDefined widgets \<and> m_evIsDefined widgets \<and>
   snd (defStr widgets ''four'') = widgets \<and> length (fst (defStr widgets ''four'')) = 1 \<and>
   snd (defInt widgets 5) = widgets \<and> length (fst (defInt widgets 5)) = 1 \<and>
   snd (intRange widgets 2 9) = widgets \<and> length (fst (intRange widgets 2 9)) = 1 \<and>
   snd (defReal widgets (Fin 4)) = widgets \<and> length (fst (defReal widgets (Fin 4))) = 1 \<and>
   snd (realRange widgets (Fin 1) (Fin 2)) = widgets \<and>
   length (fst (realRange widgets (Fin 1) (Fin 2))) = 1 \<and>
   snd (envVar widgets ''GADGETS'') = widgets \<and> length (fst (envVar widgets ''GADGETS'')) = 1 \<and>
   m_kind mode = kEnum \<and> indexOf (m_enumOptions mode) ''zzz'' = - 1 \<and>
   snd (defStr mode ''zzz'') = mode \<and> length (fst (defStr mode ''zzz'')) = 1"
  using qualifier_dropped [of widgets "''four''" 5 2 9 "Fin 4" "Fin 1" "Fin 2" "''GADGETS''"]
    qualifier_dropped [of mode "''zzz''"]
  by (simp add: widgets_fields mode_fields)

text \<open>
  C10. \<^verbatim>\<open>envVar\<close> with the empty name, on a specification without an environment
  variable, writes no warning and leaves the variable undefined; \<^verbatim>\<open>envVar\<close> with a
  name that is not empty, on the result, sets the variable and writes no warning.
\<close>

theorem envVar_empty_name:
  "\<not> m_evIsDefined s \<Longrightarrow>
     envVar s [] = ([], s \<lparr> m_evName := [] \<rparr>) \<and>
     \<not> m_evIsDefined (snd (envVar s [])) \<and>
     (n \<noteq> [] \<longrightarrow>
        envVar (snd (envVar s [])) n = ([], s \<lparr> m_evName := n, m_evIsDefined := True \<rparr>))"
  by (simp add: envVar_def Let_def)

theorem envVar_empty_name_witness:
  "\<not> m_evIsDefined mode \<and> ''PARSLEY_ENUM'' \<noteq> [] \<and>
   fst (envVar mode []) = [] \<and> \<not> m_evIsDefined (snd (envVar mode [])) \<and>
   fst (envVar (snd (envVar mode [])) ''PARSLEY_ENUM'') = [] \<and>
   m_evIsDefined (snd (envVar (snd (envVar mode [])) ''PARSLEY_ENUM'')) \<and>
   m_evName (snd (envVar (snd (envVar mode [])) ''PARSLEY_ENUM'')) = ''PARSLEY_ENUM''"
proof -
  have h: "\<not> m_evIsDefined mode"
    by (simp add: mode_def enumSpec_def newOptionSpec_def)
  have ne: "''PARSLEY_ENUM'' \<noteq> []"
    by simp
  from envVar_empty_name [OF h, of "''PARSLEY_ENUM''"] ne
  have first: "envVar mode [] = ([], mode \<lparr> m_evName := [] \<rparr>)"
    and undefined: "\<not> m_evIsDefined (snd (envVar mode []))"
    and second: "envVar (snd (envVar mode [])) ''PARSLEY_ENUM'' =
                   ([], mode \<lparr> m_evName := ''PARSLEY_ENUM'', m_evIsDefined := True \<rparr>)"
    by blast+
  show ?thesis
    unfolding second using h undefined by (simp add: first)
qed

subsection \<open>The scan of the arguments\<close>

lemma scan_latched:
  "scanArguments this True rest =
     Some (Completed True (this \<lparr> m_parameters := m_parameters this @ rest \<rparr>))"
  by (induction rest arbitrary: this) simp_all

lemma checkRequired_empty:
  "m_optionValues this = Map.empty \<Longrightarrow> checkRequired this nodes = (True, this)"
  by (induction nodes) simp_all

text \<open>
  C5. Before the options are complete, the argument \<^verbatim>\<open>--\<close> completes them and is
  dropped, the object unchanged; an argument that is empty or does not start with \<^verbatim>\<open>-\<close>
  is appended to the parameters and completes the options; once the options are complete,
  all the arguments left are appended to the parameters, in their order. With no
  specification, the arguments \<^verbatim>\<open>prog -- --looks-like-option\<close>, the first one skipped,
  are processed with success and leave the one parameter \<^verbatim>\<open>--looks-like-option\<close>.
\<close>

theorem scan_parameters:
  "scanArguments this False (''--'' # rest) = scanArguments this True rest \<and>
   (arg = [] \<or> hd arg \<noteq> CHR ''-'' \<longrightarrow>
      scanArguments this False (arg # rest) =
        scanArguments (this \<lparr> m_parameters := m_parameters this @ [arg] \<rparr>) True rest) \<and>
   scanArguments this True rest =
     Some (Completed True (this \<lparr> m_parameters := m_parameters this @ rest \<rparr>)) \<and>
   (\<exists>this'. process (snd (newParsley [])) env nodes [''prog'', ''--'', ''--looks-like-option''] True
              = Some (True, this') \<and> parameters this' = [''--looks-like-option''])"
proof (intro conjI)
  show "scanArguments this False (''--'' # rest) = scanArguments this True rest"
    by simp
  show "arg = [] \<or> hd arg \<noteq> CHR ''-'' \<longrightarrow>
      scanArguments this False (arg # rest) =
        scanArguments (this \<lparr> m_parameters := m_parameters this @ [arg] \<rparr>) True rest"
    by (cases arg) auto
  show "scanArguments this True rest =
      Some (Completed True (this \<lparr> m_parameters := m_parameters this @ rest \<rparr>))"
    by (rule scan_latched)
  show "\<exists>this'. process (snd (newParsley [])) env nodes [''prog'', ''--'', ''--looks-like-option''] True
              = Some (True, this') \<and> parameters this' = [''--looks-like-option'']"
    by (simp add: process_def newParsley_def scan_latched parameters_def checkRequired_empty)
qed

theorem scan_parameters_witness:
  "(''file'' = [] \<or> hd ''file'' \<noteq> CHR ''-'') \<and>
   scanArguments (snd (newParsley [])) False [''file'', ''-x'', ''--''] =
     Some (Completed True ((snd (newParsley [])) \<lparr> m_parameters := [''file'', ''-x'', ''--''] \<rparr>))"
  using scan_parameters [of "snd (newParsley [])" "[''-x'', ''--'']" "''file''"]
    scan_parameters [of "(snd (newParsley [])) \<lparr> m_parameters := [''file''] \<rparr>" "[''-x'', ''--'']"]
  by (simp add: newParsley_def)

end
